theory Spec2Isabelle
  imports Main "HOL-Library.Word"
begin

section \<open>Go values and library calls used by handler.go\<close>

text \<open>
  The handler of golangci-lint-langserver (src/handler.go) is embedded as pure functions.
  A Go run-time panic is a value of type \<open>panic\<close>; a function that can panic returns
  \<open>panic + 'a\<close> with \<open>Inl\<close> for the panic. Go strings and byte slices are
  \<open>string\<close> (lists of 8-bit characters, so \<open>length\<close> is Go's \<open>len\<close>).
  Go's \<open>int\<close> is the 64-bit signed integer of the usual build targets, \<open>uint32\<close>
  the 32-bit unsigned one.
\<close>

datatype panic =
    IndexOutOfRange
  | SliceBoundsOutOfRange
  | NilPointerDereference
  | InterfaceConversion
  | InvalidURI

text \<open>A slice can be \<open>nil\<close> (\<open>None\<close>) or hold elements; \<open>h.command == nil\<close> tells them apart.\<close>

type_synonym 'a slice = "'a list option"

definition elems :: "'a slice \<Rightarrow> 'a list" where
  "elems s = (case s of None \<Rightarrow> [] | Some xs \<Rightarrow> xs)"

text \<open>\<open>s[i]\<close> and \<open>s[n:]\<close> on a slice, \<open>s[n:]\<close> on a string: out of range they panic.\<close>

definition index :: "'a slice \<Rightarrow> nat \<Rightarrow> panic + 'a" where
  "index s i = (if i < length (elems s) then Inr (elems s ! i) else Inl IndexOutOfRange)"

definition slice_from :: "'a slice \<Rightarrow> nat \<Rightarrow> panic + 'a list" where
  "slice_from s n = (if n \<le> length (elems s) then Inr (drop n (elems s)) else Inl SliceBoundsOutOfRange)"

definition string_from :: "string \<Rightarrow> nat \<Rightarrow> panic + string" where
  "string_from s n = (if n \<le> length s then Inr (drop n s) else Inl SliceBoundsOutOfRange)"

subsection \<open>strings.ToLower and strings.HasPrefix\<close>

definition isUpperASCII :: "char \<Rightarrow> bool" where
  "isUpperASCII c = (65 \<le> (of_char c :: nat) \<and> (of_char c :: nat) \<le> 90)"

definition lowerASCII :: "char \<Rightarrow> char" where
  "lowerASCII c = (if isUpperASCII c then char_of ((of_char c :: nat) + 32) else c)"

definition isASCII :: "string \<Rightarrow> bool" where
  "isASCII s = list_all (\<lambda>c. (of_char c :: nat) < 128) s"

text \<open>
  \<open>strings.ToLower\<close>: a string of ASCII bytes only is returned as it is when it has no
  upper-case letter, and otherwise with \<open>'a' - 'A'\<close> added to each byte in \<open>'A'..'Z'\<close>.
  Any other string goes through \<open>strings.Map(unicode.ToLower, s)\<close>, whose Unicode tables
  are not part of this repository: that function is the parameter \<open>mapUnicode\<close>.
\<close>

definition strings_ToLower :: "(string \<Rightarrow> string) \<Rightarrow> string \<Rightarrow> string" where
  "strings_ToLower mapUnicode s =
     (if isASCII s then (if list_ex isUpperASCII s then map lowerASCII s else s)
      else mapUnicode s)"

text \<open>\<open>strings.HasPrefix(s, prefix)\<close> is \<open>len(s) >= len(prefix) && s[:len(prefix)] == prefix\<close>.\<close>

definition strings_HasPrefix :: "string \<Rightarrow> string \<Rightarrow> bool" where
  "strings_HasPrefix s pre = (length pre \<le> length s \<and> take (length pre) s = pre)"

subsection \<open>filepath.Split and bytes.Split\<close>

text \<open>
  \<open>filepath.Split\<close> on a Unix build (no volume name, separator \<open>/\<close>): the index moves
  down from the end of the path while the byte before it is not a separator; the path is
  cut there. \<open>lastSeparator path k\<close> is that loop, with \<open>k\<close> for Go's \<open>i + 1\<close>.
\<close>

fun lastSeparator :: "string \<Rightarrow> nat \<Rightarrow> nat" where
  "lastSeparator path 0 = 0"
| "lastSeparator path (Suc i) = (if path ! i = CHR ''/'' then Suc i else lastSeparator path i)"

definition filepath_Split :: "string \<Rightarrow> string \<times> string" where
  "filepath_Split path =
     (let k = lastSeparator path (length path) in (take k path, drop k path))"

text \<open>
  \<open>filepath.Base\<close> on a Unix build: \<open>.\<close> for the empty path; otherwise the trailing
  separators are stripped and the last element is what follows the last separator left,
  found by the same loop; \<open>/\<close> when nothing is left.
\<close>

definition filepath_Base :: "string \<Rightarrow> string" where
  "filepath_Base path =
     (if path = [] then ''.''
      else (let stripped = rev (dropWhile (\<lambda>c. c = CHR ''/'') (rev path));
                elem = snd (filepath_Split stripped)
            in if elem = [] then ''/'' else elem))"

text \<open>
  \<open>bytes.Split(b, sep)\<close> for a one-byte separator: the segments between the separators,
  in order; an input without separator is the only segment.
\<close>

fun bytes_Split :: "string \<Rightarrow> char \<Rightarrow> string list" where
  "bytes_Split [] sep = [[]]"
| "bytes_Split (c # cs) sep =
     (if c = sep then [] # bytes_Split cs sep
      else (c # hd (bytes_Split cs sep)) # tl (bytes_Split cs sep))"

definition newline :: char where
  "newline = CHR 0x0A"

section \<open>Protocol and handler data\<close>

type_synonym URI = string
type_synonym DocumentURI = string

datatype DiagnosticSeverity =
    ErrorDiagnosticSeverity
  | WarningDiagnosticSeverity
  | InformationDiagnosticSeverity
  | HintDiagnosticSeverity

record Position =
  Position_Line :: "32 word"
  Position_Character :: "32 word"

record Range =
  Range_Start :: Position
  Range_End :: Position

text \<open>
  \<open>protocol.Diagnostic\<close>: the fields handler.go sets. \<open>DiagnosticSource\<close> is Go's
  \<open>Source\<close>; a field a composite literal leaves out has its zero value (\<open>zeroRange\<close>,
  the empty string).
\<close>

record Diagnostic =
  DiagnosticRange :: Range
  DiagnosticSeverity :: DiagnosticSeverity
  DiagnosticSource :: string
  DiagnosticMessage :: string

definition zeroRange :: Range where
  "zeroRange =
     \<lparr>Range_Start = \<lparr>Position_Line = 0, Position_Character = 0\<rparr>,
      Range_End = \<lparr>Position_Line = 0, Position_Character = 0\<rparr>\<rparr>"

text \<open>
  A Go \<open>error\<close> value that is not nil: an \<open>*exec.ExitError\<close> with the standard error it
  captured, or any other error with the text its \<open>Error()\<close> returns. A nil error is
  \<open>None\<close> of \<open>go_error option\<close>.
\<close>

datatype go_error = ExitError string | OtherError string

text \<open>
  The \<open>Issue\<close> and \<open>Result\<close> structs that the linter's JSON output is decoded into.
  The anonymous struct types of \<open>LineRange\<close>, \<open>Pos\<close> and \<open>Report.Linters\<close> have
  names here. \<open>Issue.Replacement\<close>, an \<open>any\<close> that no function reads, is left out.
\<close>

record Issue_LineRange =
  From :: "64 word"
  To :: "64 word"

record Issue_Pos =
  Filename :: string
  Offset :: "64 word"
  Line :: "64 word"
  Column :: "64 word"

record Issue =
  FromLinter :: string
  Text :: string
  Severity :: string
  SourceLines :: "string slice"
  LineRange :: Issue_LineRange
  Pos :: Issue_Pos
  ExpectNoLint :: bool
  ExpectedNoLintLinter :: string

record Report_Linter =
  Name :: string
  Enabled :: bool
  EnabledByDefault :: bool

record Result =
  Issues :: "Issue list"
  Report_Linters :: "Report_Linter list"

text \<open>The fields of \<open>exec.Cmd\<close> that \<open>exec.Command\<close> and \<open>lint\<close> set.\<close>

record Cmd =
  Path :: string
  Args :: "string list"
  Dir :: string

text \<open>
  What handler.go calls outside the repository and the Go standard library's pure string
  functions: go.lsp.dev/uri (\<open>uri.New\<close>; \<open>URI.Filename\<close>, which panics on a URI that is
  not a file URI), the Unicode branch of \<open>strings.ToLower\<close>, \<open>exec.LookPath\<close> (the
  file found for a name in the search path, the empty string when there is none), the run
  of the external process (\<open>cmd.Output()\<close>: the captured standard output and the error) and sonic's
  \<open>Unmarshal\<close> into a \<open>Result\<close> (\<open>Inl\<close> the text of the decode error). Every theorem
  below holds for all values of these parameters.
\<close>

record extern =
  uri_New :: "string \<Rightarrow> URI"
  uri_Filename :: "URI \<Rightarrow> panic + string"
  unicode_ToLower :: "string \<Rightarrow> string"
  exec_LookPath :: "string \<Rightarrow> string"
  cmd_Output :: "Cmd \<Rightarrow> string \<times> go_error option"
  sonic_Unmarshal :: "string \<Rightarrow> string + Result"

text \<open>
  \<open>exec.Command(name, arg...)\<close>: \<open>Args\<close> is the name, then the arguments. \<open>Path\<close> is the
  name, but for a name that is its own base name it is the file \<open>LookPath\<close> finds, when
  it finds one. The error of the lookup comes back from \<open>cmd.Output()\<close>.
\<close>

definition exec_Command :: "extern \<Rightarrow> string \<Rightarrow> string list \<Rightarrow> Cmd" where
  "exec_Command ext name arg =
     \<lparr>Path = (if filepath_Base name = name \<and> exec_LookPath ext name \<noteq> []
               then exec_LookPath ext name else name),
      Args = name # arg, Dir = []\<rparr>"

text \<open>
  The handler's fields that the lint cycle and \<open>Initialize\<close> read and write. The logger,
  the connection and the request channel carry no data of the functions below.
\<close>

record handler =
  noLinterName :: bool
  command :: "string slice"
  rootURI :: URI
  rootDir :: URI

section \<open>SeverityFromString\<close>

definition SeverityFromString :: "extern \<Rightarrow> string \<Rightarrow> DiagnosticSeverity" where
  "SeverityFromString ext severity =
     (let s = strings_ToLower (unicode_ToLower ext) severity in
      if s = ''error'' then ErrorDiagnosticSeverity
      else if s = ''warning'' then WarningDiagnosticSeverity
      else if s = ''information'' then InformationDiagnosticSeverity
      else if s = ''hint'' then HintDiagnosticSeverity
      else WarningDiagnosticSeverity)"

section \<open>errToDiagnostics and diagnosticMessage\<close>

text \<open>
  The type switch sends a nil error to its default branch, where \<open>e.Error()\<close> is a call on
  a nil interface value: a nil pointer dereference.
\<close>

definition errToDiagnostics :: "go_error option \<Rightarrow> panic + Diagnostic list" where
  "errToDiagnostics err =
     (case err of
        Some (ExitError stderr) \<Rightarrow>
          Inr [\<lparr>DiagnosticRange = zeroRange, DiagnosticSeverity = ErrorDiagnosticSeverity,
                DiagnosticSource = [], DiagnosticMessage = stderr\<rparr>]
      | Some (OtherError msg) \<Rightarrow>
          Inr [\<lparr>DiagnosticRange = zeroRange, DiagnosticSeverity = ErrorDiagnosticSeverity,
                DiagnosticSource = [], DiagnosticMessage = msg\<rparr>]
      | None \<Rightarrow> Inl NilPointerDereference)"

definition diagnosticMessage :: "handler \<Rightarrow> Issue \<Rightarrow> string" where
  "diagnosticMessage h issue =
     (if noLinterName h then Text issue else FromLinter issue @ '': '' @ Text issue)"

section \<open>lint\<close>

text \<open>
  The first part of \<open>lint\<close>, up to the run of the process: the command, its working
  directory and the file name the issues are compared with. The steps and their order are
  the source's: \<open>path.Filename()\<close>, \<open>filepath.Split\<close>, \<open>h.command[1:]\<close>,
  \<open>h.command[0]\<close>, \<open>h.rootDir.Filename()\<close>, the prefix test and the slice of the path.
\<close>

definition lint_command :: "extern \<Rightarrow> handler \<Rightarrow> DocumentURI \<Rightarrow> panic + (Cmd \<times> string)" where
  "lint_command ext h docURI =
     (case uri_Filename ext (uri_New ext docURI) of
        Inl p \<Rightarrow> Inl p
      | Inr pathname \<Rightarrow>
          (case filepath_Split pathname of
             (dir, file) \<Rightarrow>
               (case slice_from (command h) 1 of
                  Inl p \<Rightarrow> Inl p
                | Inr rest \<Rightarrow>
                    (case index (command h) 0 of
                       Inl p \<Rightarrow> Inl p
                     | Inr name \<Rightarrow>
                         (case uri_Filename ext (rootDir h) of
                            Inl p \<Rightarrow> Inl p
                          | Inr rootname \<Rightarrow>
                              if strings_HasPrefix pathname rootname
                              then (case string_from pathname (length rootname + 1) of
                                      Inl p \<Rightarrow> Inl p
                                    | Inr file' \<Rightarrow>
                                        Inr ((exec_Command ext name (rest @ [dir]))\<lparr>Dir := rootname\<rparr>, file'))
                              else Inr ((exec_Command ext name (rest @ [dir]))\<lparr>Dir := dir\<rparr>, file))))))"

text \<open>
  Go's \<open>max\<close> on \<open>int\<close>, and the position \<open>uint32(max(int(x - 1), 0))\<close>: the subtraction
  wraps in 64 bits, the conversion keeps the low 32 bits.
\<close>

definition max_int :: "64 word \<Rightarrow> 64 word \<Rightarrow> 64 word" where
  "max_int a b = (if sint a < sint b then b else a)"

definition translate :: "64 word \<Rightarrow> 32 word" where
  "translate x = ucast (max_int (x - 1) 0)"

text \<open>The diagnostic the loop builds for an issue that passed the file name test.\<close>

definition issueDiagnostic :: "extern \<Rightarrow> handler \<Rightarrow> Issue \<Rightarrow> Diagnostic" where
  "issueDiagnostic ext h issue =
     \<lparr>DiagnosticRange =
        \<lparr>Range_Start = \<lparr>Position_Line = translate (Line (Pos issue)),
                         Position_Character = translate (Column (Pos issue))\<rparr>,
         Range_End = \<lparr>Position_Line = translate (Line (Pos issue)),
                       Position_Character = translate (Column (Pos issue))\<rparr>\<rparr>,
      DiagnosticSeverity = SeverityFromString ext (Severity issue),
      DiagnosticSource = FromLinter issue,
      DiagnosticMessage = diagnosticMessage h issue\<rparr>"

text \<open>The loop over \<open>result.Issues\<close>, with the slice \<open>diagnostics\<close> it appends to.\<close>

fun lint_issues :: "extern \<Rightarrow> handler \<Rightarrow> string \<Rightarrow> Issue list \<Rightarrow> Diagnostic list \<Rightarrow> Diagnostic list" where
  "lint_issues ext h file [] diagnostics = diagnostics"
| "lint_issues ext h file (issue # rest) diagnostics =
     (if file \<noteq> Filename (Pos issue) then lint_issues ext h file rest diagnostics
      else lint_issues ext h file rest (diagnostics @ [issueDiagnostic ext h issue]))"

text \<open>
  \<open>lint\<close> returns the diagnostics and an error that is always nil, or panics. \<open>data[0]\<close>
  is an indexing like any other.
\<close>

definition lint :: "extern \<Rightarrow> handler \<Rightarrow> DocumentURI \<Rightarrow> panic + (Diagnostic list \<times> go_error option)" where
  "lint ext h docURI =
     (case lint_command ext h docURI of
        Inl p \<Rightarrow> Inl p
      | Inr (cmd, file) \<Rightarrow>
          (case cmd_Output ext cmd of
             (b, err) \<Rightarrow>
               if length b = 0
               then (case errToDiagnostics err of
                       Inl p \<Rightarrow> Inl p
                     | Inr ds \<Rightarrow> Inr (ds, None))
               else (case index (Some (bytes_Split b newline)) 0 of
                       Inl p \<Rightarrow> Inl p
                     | Inr data0 \<Rightarrow>
                         (case sonic_Unmarshal ext data0 of
                            Inl msg \<Rightarrow>
                              (case errToDiagnostics (Some (OtherError msg)) of
                                 Inl p \<Rightarrow> Inl p
                               | Inr ds \<Rightarrow> Inr (ds, None))
                          | Inr result \<Rightarrow>
                              Inr (lint_issues ext h file (Issues result) [], None)))))"

section \<open>NewServer and Initialize\<close>

text \<open>
  A value of Go's \<open>any\<close> as a JSON decoder or a caller can build it: nil, a string, a
  boolean, a number, a \<open>[]any\<close>, a \<open>[]string\<close> (nil or not) and a \<open>map[string]any\<close>.
  A type assertion succeeds on the one constructor of its type.
\<close>

datatype any =
    AnyNil
  | AnyString string
  | AnyBool bool
  | AnyFloat64 int
  | AnySlice "any list"
  | AnyStringSlice "string slice"
  | AnyMap "string \<Rightarrow> any option"

record WorkspaceFolder =
  WorkspaceFolder_URI :: URI
  WorkspaceFolder_Name :: string

record InitializeParams =
  WorkspaceFolders :: "WorkspaceFolder list"
  InitializationOptions :: any

datatype TextDocumentSyncKind = NoneSync | FullSync | IncrementalSync

record InitializeResult =
  OpenClose :: bool
  Change :: TextDocumentSyncKind
  Save_IncludeText :: bool
  ServerInfo_Name :: string

text \<open>\<open>NewServer\<close> leaves \<open>command\<close>, \<open>rootURI\<close> and \<open>rootDir\<close> at their zero values.\<close>

definition NewServer :: "bool \<Rightarrow> handler" where
  "NewServer nolintername = \<lparr>noLinterName = nolintername, command = None, rootURI = [], rootDir = []\<rparr>"

definition baseline :: "string list" where
  "baseline = [''golangci-lint'', ''run'', ''--out-format'', ''json'']"

definition Initialize :: "handler \<Rightarrow> InitializeParams \<Rightarrow> panic + (handler \<times> InitializeResult)" where
  "Initialize h params =
     (case index (Some (WorkspaceFolders params)) 0 of
        Inl p \<Rightarrow> Inl p
      | Inr folder \<Rightarrow>
          (case InitializationOptions params of
             AnyMap initOptions \<Rightarrow>
               (let h1 = h\<lparr>rootURI := WorkspaceFolder_URI folder, rootDir := WorkspaceFolder_URI folder\<rparr>;
                    h2 = (case initOptions ''command'' of
                            Some (AnyStringSlice cmd) \<Rightarrow> h1\<lparr>command := cmd\<rparr>
                          | _ \<Rightarrow> h1);
                    h3 = (if command h2 = None then h2\<lparr>command := Some baseline\<rparr> else h2)
                in Inr (h3, \<lparr>OpenClose = True, Change = IncrementalSync, Save_IncludeText = True,
                             ServerInfo_Name = ''golangci-lint-langserver''\<rparr>))
           | _ \<Rightarrow> Inl InterfaceConversion))"

section \<open>The claim's wording of the relative file name, and sample values\<close>

text \<open>
  The relative file name in the words of the specification: the document path with the
  root prefix and one separator character stripped.
\<close>

definition stripped_root_separator :: "string \<Rightarrow> string \<Rightarrow> string \<Rightarrow> bool" where
  "stripped_root_separator pathname rootname file = (pathname = rootname @ CHR ''/'' # file)"

text \<open>
  Sample values for the examples: file URIs resolved by cutting the scheme, every program
  found in \<open>/usr/bin\<close>, a handler as
  \<open>Initialize\<close> leaves it for the workspace \<open>/proj\<close>, and issues of a linter \<open>x\<close>.
\<close>

definition sample_Filename :: "URI \<Rightarrow> panic + string" where
  "sample_Filename u = (if take 7 u = ''file://'' then Inr (drop 7 u) else Inl InvalidURI)"

definition sample_extern :: "(Cmd \<Rightarrow> string \<times> go_error option) \<Rightarrow> (string \<Rightarrow> string + Result) \<Rightarrow> extern" where
  "sample_extern out dec =
     \<lparr>uri_New = (\<lambda>s. if take 7 s = ''file://'' then s else ''file://'' @ s),
      uri_Filename = sample_Filename,
      unicode_ToLower = (\<lambda>s. s),
      exec_LookPath = (\<lambda>name. ''/usr/bin/'' @ name),
      cmd_Output = out,
      sonic_Unmarshal = dec\<rparr>"

definition sample_handler :: handler where
  "sample_handler = \<lparr>noLinterName = False, command = Some baseline,
                      rootURI = ''file:///proj'', rootDir = ''file:///proj''\<rparr>"

definition issue_at :: "string \<Rightarrow> 64 word \<Rightarrow> 64 word \<Rightarrow> Issue" where
  "issue_at file line col =
     \<lparr>FromLinter = ''x'', Text = ''unused var'', Severity = ''warning'', SourceLines = None,
      LineRange = \<lparr>From = 0, To = 0\<rparr>,
      Pos = \<lparr>Filename = file, Offset = 0, Line = line, Column = col\<rparr>,
      ExpectNoLint = False, ExpectedNoLintLinter = []\<rparr>"

definition sample_result :: Result where
  "sample_result =
     \<lparr>Issues = [issue_at ''pkg/a.go'' 10 3, issue_at ''pkg/b.go'' 4 1, issue_at ''pkg/a.go'' 1 1],
      Report_Linters = []\<rparr>"

text \<open>
  Sample runs of the external process: a run that prints a result and a summary line, a
  run that fails with output on standard error only, a run that prints nothing and
  succeeds, and a run whose first line is not a result. \<open>sample_cmd\<close> is the command
  for \<open>/proj/pkg/a.go\<close> in the workspace \<open>/proj\<close>.
\<close>

definition sample_run :: extern where
  "sample_run =
     sample_extern (\<lambda>c. (''{Issues}'' @ newline # ''1 issue'', Some (ExitError [])))
       (\<lambda>s. if s = ''{Issues}'' then Inr sample_result else Inl (''invalid character in '' @ s))"

definition sample_failed_run :: extern where
  "sample_failed_run =
     sample_extern (\<lambda>c. ([], Some (ExitError ''config error: no .golangci.yml'')))
       (\<lambda>s. Inl (''invalid character in '' @ s))"

definition sample_silent_run :: extern where
  "sample_silent_run = sample_extern (\<lambda>c. ([], None)) (\<lambda>s. Inl (''invalid character in '' @ s))"

definition sample_garbled_run :: extern where
  "sample_garbled_run =
     sample_extern (\<lambda>c. (''oops'' @ newline # ''{Issues}'', None))
       (\<lambda>s. if s = ''{Issues}'' then Inr sample_result else Inl (''invalid character in '' @ s))"

definition sample_cmd :: Cmd where
  "sample_cmd = \<lparr>Path = ''/usr/bin/golangci-lint'',
      Args = [''golangci-lint'', ''run'', ''--out-format'', ''json'', ''/proj/pkg/''],
      Dir = ''/proj''\<rparr>"

text \<open>
  Initialization parameters: the options as a JSON decoder delivers an object whose key
  \<open>command\<close> holds the array of the strings \<open>golangci-lint\<close>, \<open>run\<close>, \<open>--fast\<close>,
  \<open>--out-format\<close>, \<open>json\<close> (an object is a \<open>map[string]any\<close>, an array a
  \<open>[]any\<close>), and parameters with given folders and options.
\<close>

definition json_command_params :: InitializeParams where
  "json_command_params =
     \<lparr>WorkspaceFolders = [\<lparr>WorkspaceFolder_URI = ''file:///proj'', WorkspaceFolder_Name = ''proj''\<rparr>],
      InitializationOptions =
        AnyMap (Map.empty(''command'' \<mapsto>
          AnySlice [AnyString ''golangci-lint'', AnyString ''run'', AnyString ''--fast'',
                    AnyString ''--out-format'', AnyString ''json'']))\<rparr>"

definition sample_params :: "WorkspaceFolder list \<Rightarrow> any \<Rightarrow> InitializeParams" where
  "sample_params folders options = \<lparr>WorkspaceFolders = folders, InitializationOptions = options\<rparr>"

definition proj_folder :: WorkspaceFolder where
  "proj_folder = \<lparr>WorkspaceFolder_URI = ''file:///proj'', WorkspaceFolder_Name = ''proj''\<rparr>"

section \<open>Library functions: what they compute\<close>

lemma map_lowerASCII_id: "\<not> list_ex isUpperASCII s \<Longrightarrow> map lowerASCII s = s"
  by (induction s) (simp_all add: lowerASCII_def)

lemma strings_ToLower_ASCII: "isASCII s \<Longrightarrow> strings_ToLower f s = map lowerASCII s"
  by (simp add: strings_ToLower_def map_lowerASCII_id)

lemma bytes_Split_not_Nil: "bytes_Split b sep \<noteq> []"
  by (cases b) simp_all

lemma hd_bytes_Split: "hd (bytes_Split b sep) = takeWhile (\<lambda>c. c \<noteq> sep) b"
  by (induction b) simp_all

lemma bytes_Split_segment:
  "sep \<notin> set seg \<Longrightarrow> bytes_Split (seg @ sep # rest) sep = seg # bytes_Split rest sep"
  by (induction seg) auto

lemma bytes_Split_single: "sep \<notin> set seg \<Longrightarrow> bytes_Split seg sep = [seg]"
  by (induction seg) auto

lemma index_first: "xs \<noteq> [] \<Longrightarrow> index (Some xs) 0 = Inr (hd xs)"
  by (cases xs) (simp_all add: index_def elems_def)

lemma data0: "index (Some (bytes_Split b newline)) 0 = Inr (takeWhile (\<lambda>c. c \<noteq> newline) b)"
  by (simp add: index_first bytes_Split_not_Nil hd_bytes_Split)

lemma lastSeparator_le: "lastSeparator path k \<le> k"
  by (induction k) simp_all

lemma lastSeparator_at:
  "lastSeparator path k = 0 \<or> path ! (lastSeparator path k - 1) = CHR ''/''"
  by (induction k) simp_all

lemma lastSeparator_after:
  "lastSeparator path k \<le> j \<Longrightarrow> j < k \<Longrightarrow> path ! j \<noteq> CHR ''/''"
proof (induction k)
  case 0
  then show ?case by simp
next
  case (Suc k)
  show ?case
  proof (cases "path ! k = CHR ''/''")
    case True
    with Suc.prems show ?thesis by simp
  next
    case False
    show ?thesis
    proof (cases "j = k")
      case True
      with False show ?thesis by simp
    next
      case jk: False
      with Suc.prems False have "lastSeparator path k \<le> j" "j < k" by simp_all
      then show ?thesis by (rule Suc.IH)
    qed
  qed
qed

lemma filepath_Split_concat: "fst (filepath_Split path) @ snd (filepath_Split path) = path"
  by (simp add: filepath_Split_def Let_def)

lemma filepath_Split_file: "CHR ''/'' \<notin> set (snd (filepath_Split path))"
proof
  let ?k = "lastSeparator path (length path)"
  assume "CHR ''/'' \<in> set (snd (filepath_Split path))"
  then have "CHR ''/'' \<in> set (drop ?k path)" by (simp add: filepath_Split_def Let_def)
  then obtain i where i: "i < length (drop ?k path)" "drop ?k path ! i = CHR ''/''"
    by (auto simp: in_set_conv_nth)
  then have "path ! (?k + i) = CHR ''/''" and "?k + i < length path" by simp_all
  moreover have "?k \<le> ?k + i" by simp
  ultimately show False using lastSeparator_after [of path "length path" "?k + i"] by simp
qed

lemma filepath_Split_dir:
  "fst (filepath_Split path) = [] \<or> last (fst (filepath_Split path)) = CHR ''/''"
proof -
  let ?k = "lastSeparator path (length path)"
  have le: "?k \<le> length path" by (rule lastSeparator_le)
  show ?thesis
  proof (cases "?k = 0")
    case True
    then show ?thesis by (simp add: filepath_Split_def Let_def)
  next
    case False
    with lastSeparator_at [of path "length path"] have "path ! (?k - 1) = CHR ''/''" by simp
    moreover have "last (take ?k path) = path ! (?k - 1)"
    proof -
      from le False have "take ?k path \<noteq> []" by auto
      then have "last (take ?k path) = take ?k path ! (length (take ?k path) - 1)"
        by (rule last_conv_nth)
      also from le False have "\<dots> = path ! (?k - 1)" by (simp add: min_def)
      finally show ?thesis .
    qed
    ultimately show ?thesis by (simp add: filepath_Split_def Let_def)
  qed
qed

lemma strings_HasPrefix_iff: "strings_HasPrefix s pre \<longleftrightarrow> (\<exists>t. s = pre @ t)"
proof
  assume "strings_HasPrefix s pre"
  then have "s = pre @ drop (length pre) s"
    by (metis append_take_drop_id strings_HasPrefix_def)
  then show "\<exists>t. s = pre @ t" ..
next
  assume "\<exists>t. s = pre @ t"
  then show "strings_HasPrefix s pre" by (auto simp: strings_HasPrefix_def)
qed

lemma strings_HasPrefix_longer:
  assumes "strings_HasPrefix s pre" and "s \<noteq> pre"
  shows "length pre < length s"
    and "s = pre @ (s ! length pre) # drop (length pre + 1) s"
proof -
  from assms(1) obtain t where t: "s = pre @ t" by (auto simp: strings_HasPrefix_iff)
  with assms(2) have "t \<noteq> []" by auto
  then obtain c u where "t = c # u" by (cases t) auto
  with t show "length pre < length s" and "s = pre @ (s ! length pre) # drop (length pre + 1) s"
    by simp_all
qed

lemma lint_issues_append:
  "lint_issues ext h file issues diagnostics =
     diagnostics @ map (issueDiagnostic ext h) (filter (\<lambda>issue. Filename (Pos issue) = file) issues)"
  by (induction issues arbitrary: diagnostics) auto

lemma lint_nonempty:
  assumes "lint_command ext h docURI = Inr (cmd, file)"
    and "cmd_Output ext cmd = (b, err)"
    and "b \<noteq> []"
  shows "lint ext h docURI =
           (case sonic_Unmarshal ext (takeWhile (\<lambda>c. c \<noteq> newline) b) of
              Inl msg \<Rightarrow> Inr ([\<lparr>DiagnosticRange = zeroRange, DiagnosticSeverity = ErrorDiagnosticSeverity,
                DiagnosticSource = [], DiagnosticMessage = msg\<rparr>], None)
            | Inr result \<Rightarrow> Inr (lint_issues ext h file (Issues result) [], None))"
  using assms by (simp add: lint_def data0 errToDiagnostics_def split: sum.splits)

lemma sample_lint_command:
  "lint_command (sample_extern out dec) sample_handler ''file:///proj/pkg/a.go'' = Inr (sample_cmd, ''pkg/a.go'')"
  by code_simp

lemma uint_nonneg_sint:
  fixes w :: "64 word"
  assumes "0 \<le> sint w"
  shows "uint w = sint w"
proof -
  have "sint w < 2 ^ 64" using sint_lt [of w] by simp
  with assms have "take_bit 64 (sint w) = sint w" by (simp add: take_bit_int_eq_self)
  then show ?thesis using uint_sint [of w] by simp
qed

lemma uint_translate: "uint (translate x) = max (sint (x - 1)) 0 mod 2 ^ 32"
proof (cases "sint (x - 1) < 0")
  case True
  then show ?thesis by (simp add: translate_def max_int_def)
next
  case False
  then have "uint (x - 1) = sint (x - 1)" by (simp add: uint_nonneg_sint)
  with False show ?thesis
    by (simp add: translate_def max_int_def unsigned_ucast_eq take_bit_eq_mod)
qed

lemma sint_pred: 
  fixes x :: "64 word"
  assumes "- (2 ^ 63) < sint x"
  shows "sint (x - 1) = sint x - 1"
proof -
  have "sint x < 2 ^ 63" using sint_lt [of x] by simp
  with assms show ?thesis
    by (simp add: sint_word_diff signed_take_bit_int_eq_self)
qed

lemma translate_in_range:
  assumes "- (2 ^ 63) < sint x" and "sint x \<le> 2 ^ 32"
  shows "uint (translate x) = max (sint x - 1) 0"
proof -
  have p: "sint (x - 1) = sint x - 1" using assms(1) by (rule sint_pred)
  have "0 \<le> max (sint x - 1) 0" and "max (sint x - 1) 0 < 2 ^ 32" using assms by simp_all
  then have "max (sint x - 1) 0 mod 2 ^ 32 = max (sint x - 1) 0" by (rule mod_pos_pos_trivial)
  then show ?thesis by (simp only: uint_translate p)
qed

lemma translate_one_zero: "translate 1 = 0" "translate 0 = 0" 
  by (simp_all add: translate_def max_int_def)

lemma lint_command_root_itself:
  assumes "uri_Filename ext (uri_New ext docURI) = Inr pathname"
    and "uri_Filename ext (rootDir h) = Inr pathname"
    and "command h = Some (name # fixed)"
  shows "lint_command ext h docURI = Inl SliceBoundsOutOfRange"
  using assms
  by (simp add: lint_command_def slice_from_def index_def elems_def string_from_def
      strings_HasPrefix_def split: prod.splits)

lemma lint_command_no_command:
  assumes "uri_Filename ext (uri_New ext docURI) = Inr pathname"
    and "elems (command h) = []"
  shows "lint_command ext h docURI = Inl SliceBoundsOutOfRange"
  using assms
  by (simp add: lint_command_def slice_from_def split: prod.splits)

lemma lint_command_separator_follows:
  assumes "uri_Filename ext (uri_New ext docURI) = Inr pathname"
    and "uri_Filename ext (rootDir h) = Inr rootname"
    and "command h = Some (name # fixed)"
    and "stripped_root_separator pathname rootname file"
  shows "lint_command ext h docURI =
           Inr ((exec_Command ext name (fixed @ [fst (filepath_Split pathname)]))\<lparr>Dir := rootname\<rparr>,
                file)"
  using assms
  by (simp add: lint_command_def slice_from_def index_def elems_def string_from_def
      strings_HasPrefix_def stripped_root_separator_def split: prod.splits)

lemma lint_command_not_prefix:
  assumes "uri_Filename ext (uri_New ext docURI) = Inr pathname"
    and "uri_Filename ext (rootDir h) = Inr rootname"
    and "command h = Some (name # fixed)"
    and "\<not> strings_HasPrefix pathname rootname"
  shows "lint_command ext h docURI =
           Inr ((exec_Command ext name (fixed @ [fst (filepath_Split pathname)]))
                  \<lparr>Dir := fst (filepath_Split pathname)\<rparr>,
                snd (filepath_Split pathname))"
  using assms
  by (simp add: lint_command_def slice_from_def index_def elems_def split: prod.splits)

lemma Initialize_returns:
  assumes "WorkspaceFolders params = folder # folders"
    and "InitializationOptions params = AnyMap initOptions"
  shows "\<exists>h' r. Initialize h params = Inr (h', r) \<and>
           rootURI h' = WorkspaceFolder_URI folder \<and> rootDir h' = WorkspaceFolder_URI folder \<and>
           command h' =
             (case initOptions ''command'' of
                Some (AnyStringSlice (Some cmd)) \<Rightarrow> Some cmd
              | Some (AnyStringSlice None) \<Rightarrow> Some baseline
              | _ \<Rightarrow> (case command h of None \<Rightarrow> Some baseline | Some old \<Rightarrow> Some old))"
  using assms
  by (auto simp: Initialize_def index_def elems_def Let_def split: option.splits any.splits)

section \<open>The lint cycle\<close>

text \<open>
  Claim C1. When the command was built, the process printed a non-empty output and its first
  line decoded to a result, \<open>lint\<close> returns one diagnostic for each issue whose
  \<open>Pos.Filename\<close> equals the relative file name, none for any other issue, in the order
  of the issues, and a nil error.
\<close>

theorem lint_filters_in_order:
  assumes "lint_command ext h docURI = Inr (cmd, file)"
    and "cmd_Output ext cmd = (b, err)"
    and "b \<noteq> []"
    and "sonic_Unmarshal ext (takeWhile (\<lambda>c. c \<noteq> newline) b) = Inr result"
  shows "lint ext h docURI =
           Inr (map (issueDiagnostic ext h)
                  (filter (\<lambda>issue. Filename (Pos issue) = file) (Issues result)), None)"
  using assms by (simp add: lint_nonempty lint_issues_append)

theorem lint_filters_in_order_witness:
  "lint sample_run sample_handler ''file:///proj/pkg/a.go'' =
     Inr ([\<lparr>DiagnosticRange =
               \<lparr>Range_Start = \<lparr>Position_Line = 9, Position_Character = 2\<rparr>,
                Range_End = \<lparr>Position_Line = 9, Position_Character = 2\<rparr>\<rparr>,
             DiagnosticSeverity = WarningDiagnosticSeverity, DiagnosticSource = ''x'',
             DiagnosticMessage = ''x: unused var''\<rparr>,
           \<lparr>DiagnosticRange = zeroRange,
             DiagnosticSeverity = WarningDiagnosticSeverity, DiagnosticSource = ''x'',
             DiagnosticMessage = ''x: unused var''\<rparr>], None)"
proof -
  have c: "lint_command sample_run sample_handler ''file:///proj/pkg/a.go'' = Inr (sample_cmd, ''pkg/a.go'')"
    unfolding sample_run_def by (rule sample_lint_command)
  have out: "cmd_Output sample_run sample_cmd = (''{Issues}'' @ newline # ''1 issue'', Some (ExitError []))"
    by (simp add: sample_run_def sample_extern_def)
  have ne: "''{Issues}'' @ newline # ''1 issue'' \<noteq> []" by simp
  have dec: "sonic_Unmarshal sample_run (takeWhile (\<lambda>c. c \<noteq> newline) (''{Issues}'' @ newline # ''1 issue'')) = Inr sample_result"
    by code_simp
  have ds: "map (issueDiagnostic sample_run sample_handler)
                  (filter (\<lambda>issue. Filename (Pos issue) = ''pkg/a.go'') (Issues sample_result)) =
      [\<lparr>DiagnosticRange =
               \<lparr>Range_Start = \<lparr>Position_Line = 9, Position_Character = 2\<rparr>,
                Range_End = \<lparr>Position_Line = 9, Position_Character = 2\<rparr>\<rparr>,
             DiagnosticSeverity = WarningDiagnosticSeverity, DiagnosticSource = ''x'',
             DiagnosticMessage = ''x: unused var''\<rparr>,
           \<lparr>DiagnosticRange = zeroRange,
             DiagnosticSeverity = WarningDiagnosticSeverity, DiagnosticSource = ''x'',
             DiagnosticMessage = ''x: unused var''\<rparr>]"
    by code_simp
  show ?thesis
    using lint_filters_in_order [OF c out ne dec] ds by simp
qed

text \<open>
  Claim C3. When the process printed nothing and returned a non-nil error, \<open>lint\<close> returns
  exactly one diagnostic of Error severity with empty source and zero range, whose message
  is the captured standard error of an exit error and the error's own message otherwise,
  and a nil error.
\<close>

theorem lint_empty_output_error:
  assumes "lint_command ext h docURI = Inr (cmd, file)"
    and "cmd_Output ext cmd = ([], Some e)"
  shows "lint ext h docURI =
           Inr ([\<lparr>DiagnosticRange = zeroRange, DiagnosticSeverity = ErrorDiagnosticSeverity,
                  DiagnosticSource = [],
                  DiagnosticMessage = (case e of ExitError stderr \<Rightarrow> stderr | OtherError msg \<Rightarrow> msg)\<rparr>],
                None)"
  using assms by (cases e) (simp_all add: lint_def errToDiagnostics_def)

theorem lint_empty_output_error_witness:
  "lint sample_failed_run sample_handler ''file:///proj/pkg/a.go'' =
     Inr ([\<lparr>DiagnosticRange = zeroRange, DiagnosticSeverity = ErrorDiagnosticSeverity,
            DiagnosticSource = [], DiagnosticMessage = ''config error: no .golangci.yml''\<rparr>], None)"
proof -
  have c: "lint_command sample_failed_run sample_handler ''file:///proj/pkg/a.go'' = Inr (sample_cmd, ''pkg/a.go'')"
    unfolding sample_failed_run_def by (rule sample_lint_command)
  have out: "cmd_Output sample_failed_run sample_cmd = ([], Some (ExitError ''config error: no .golangci.yml''))"
    by (simp add: sample_failed_run_def sample_extern_def)
  show ?thesis
    using lint_empty_output_error [OF c out] by simp
qed

text \<open>
  Claim C10. \<open>errToDiagnostics\<close> panics on a nil error and returns diagnostics on every
  other one; so when the process printed nothing and returned a nil error, \<open>lint\<close>
  panics with a nil pointer dereference.
\<close>

theorem lint_empty_output_nil_error:
  assumes "lint_command ext h docURI = Inr (cmd, file)"
    and "cmd_Output ext cmd = ([], None)"
  shows "errToDiagnostics None = Inl NilPointerDereference \<and>
         (\<forall>e. \<exists>ds. errToDiagnostics (Some e) = Inr ds) \<and>
         lint ext h docURI = Inl NilPointerDereference"
proof -
  have "\<exists>ds. errToDiagnostics (Some e) = Inr ds" for e
    by (cases e) (simp_all add: errToDiagnostics_def)
  with assms show ?thesis by (simp add: lint_def errToDiagnostics_def)
qed

theorem lint_empty_output_nil_error_witness:
  "lint sample_silent_run sample_handler ''file:///proj/pkg/a.go'' = Inl NilPointerDereference"
proof -
  have c: "lint_command sample_silent_run sample_handler ''file:///proj/pkg/a.go'' = Inr (sample_cmd, ''pkg/a.go'')"
    unfolding sample_silent_run_def by (rule sample_lint_command)
  have out: "cmd_Output sample_silent_run sample_cmd = ([], None)"
    by (simp add: sample_silent_run_def sample_extern_def)
  show ?thesis
    using lint_empty_output_nil_error [OF c out] by simp
qed

text \<open>
  Claim C4. On a non-empty output \<open>lint\<close> splits at the newlines and decodes the first
  segment only, the bytes before the first newline: the result is a function of that
  segment, whatever follows it. When the segment does not decode, the result is the one
  synthetic Error diagnostic of the empty-output path with the decode error's message.
\<close>

theorem lint_decodes_first_segment:
  assumes "lint_command ext h docURI = Inr (cmd, file)"
    and "cmd_Output ext cmd = (b, err)"
    and "b \<noteq> []"
  shows "bytes_Split b newline \<noteq> [] \<and>
         hd (bytes_Split b newline) = takeWhile (\<lambda>c. c \<noteq> newline) b \<and>
         (\<forall>seg rest. b = seg @ newline # rest \<and> newline \<notin> set seg \<longrightarrow>
            hd (bytes_Split b newline) = seg) \<and>
         (newline \<notin> set b \<longrightarrow> hd (bytes_Split b newline) = b) \<and>
         lint ext h docURI =
           (case sonic_Unmarshal ext (hd (bytes_Split b newline)) of
              Inl msg \<Rightarrow>
                Inr ([\<lparr>DiagnosticRange = zeroRange, DiagnosticSeverity = ErrorDiagnosticSeverity,
                       DiagnosticSource = [], DiagnosticMessage = msg\<rparr>], None)
            | Inr result \<Rightarrow> Inr (lint_issues ext h file (Issues result) [], None))"
  using lint_nonempty [OF assms]
  by (simp add: bytes_Split_not_Nil hd_bytes_Split bytes_Split_segment bytes_Split_single)

theorem lint_decodes_first_segment_witness:
  "lint sample_garbled_run sample_handler ''file:///proj/pkg/a.go'' =
     Inr ([\<lparr>DiagnosticRange = zeroRange, DiagnosticSeverity = ErrorDiagnosticSeverity,
            DiagnosticSource = [], DiagnosticMessage = ''invalid character in oops''\<rparr>], None)"
proof -
  have c: "lint_command sample_garbled_run sample_handler ''file:///proj/pkg/a.go'' = Inr (sample_cmd, ''pkg/a.go'')"
    unfolding sample_garbled_run_def by (rule sample_lint_command)
  have out: "cmd_Output sample_garbled_run sample_cmd = (''oops'' @ newline # ''{Issues}'', None)"
    by (simp add: sample_garbled_run_def sample_extern_def)
  have ne: "''oops'' @ newline # ''{Issues}'' \<noteq> []" by simp
  have dec: "sonic_Unmarshal sample_garbled_run (hd (bytes_Split (''oops'' @ newline # ''{Issues}'') newline)) =
      Inl ''invalid character in oops''"
    by code_simp
  show ?thesis
    using lint_decodes_first_segment [OF c out ne] dec by simp
qed


text \<open>
  The claim C6 as stated fails: a line number above \<open>2 ^ 32\<close> fits Go's \<open>int\<close>, and the
  conversion to \<open>uint32\<close> keeps its low 32 bits only. On the least \<open>int\<close> the
  subtraction wraps around to the greatest one.
\<close>

theorem issueDiagnostic_counterexample:
  "uint (Position_Line (Range_Start (DiagnosticRange
      (issueDiagnostic sample_run sample_handler (issue_at ''pkg/a.go'' 4294967297 1))))) = 0 \<and>
   max (sint (Line (Pos (issue_at ''pkg/a.go'' 4294967297 1))) - 1) 0 = 4294967296 \<and>
   uint (Position_Line (Range_Start (DiagnosticRange
      (issueDiagnostic sample_run sample_handler (issue_at ''pkg/a.go'' 4294967297 1))))) \<noteq>
   max (sint (Line (Pos (issue_at ''pkg/a.go'' 4294967297 1))) - 1) 0 \<and>
   uint (Position_Line (Range_Start (DiagnosticRange
      (issueDiagnostic sample_run sample_handler
         (issue_at ''pkg/a.go'' (- 9223372036854775808) 1))))) = 4294967295 \<and>
   max (sint (Line (Pos (issue_at ''pkg/a.go'' (- 9223372036854775808) 1))) - 1) 0 = 0"
  by (simp add: issueDiagnostic_def issue_at_def translate_def max_int_def)

text \<open>
  Claim C6, amended. The diagnostic of an issue has a point range, start equal to end. Its
  line and character are \<open>max(x - 1, 0)\<close> of \<open>Pos.Line\<close> and \<open>Pos.Column\<close>, computed in
  64-bit \<open>int\<close> and cut to 32 bits; they equal \<open>max(x - 1, 0)\<close> for every field value
  above the least \<open>int\<close> and up to \<open>2 ^ 32\<close>. Line 1, column 1 and the zero values map to 0.
\<close>

theorem issueDiagnostic_point_range:
  "Range_Start (DiagnosticRange (issueDiagnostic ext h issue)) =
     Range_End (DiagnosticRange (issueDiagnostic ext h issue)) \<and>
   uint (Position_Line (Range_Start (DiagnosticRange (issueDiagnostic ext h issue)))) =
     max (sint (Line (Pos issue) - 1)) 0 mod 2 ^ 32 \<and>
   uint (Position_Character (Range_Start (DiagnosticRange (issueDiagnostic ext h issue)))) =
     max (sint (Column (Pos issue) - 1)) 0 mod 2 ^ 32 \<and>
   (- (2 ^ 63) < sint (Line (Pos issue)) \<and> sint (Line (Pos issue)) \<le> 2 ^ 32 \<longrightarrow>
      uint (Position_Line (Range_Start (DiagnosticRange (issueDiagnostic ext h issue)))) =
        max (sint (Line (Pos issue)) - 1) 0) \<and>
   (- (2 ^ 63) < sint (Column (Pos issue)) \<and> sint (Column (Pos issue)) \<le> 2 ^ 32 \<longrightarrow>
      uint (Position_Character (Range_Start (DiagnosticRange (issueDiagnostic ext h issue)))) =
        max (sint (Column (Pos issue)) - 1) 0) \<and>
   (Line (Pos issue) = 1 \<or> Line (Pos issue) = 0 \<longrightarrow>
      Position_Line (Range_Start (DiagnosticRange (issueDiagnostic ext h issue))) = 0) \<and>
   (Column (Pos issue) = 1 \<or> Column (Pos issue) = 0 \<longrightarrow>
      Position_Character (Range_Start (DiagnosticRange (issueDiagnostic ext h issue))) = 0)"
proof -
  have s: "Range_Start (DiagnosticRange (issueDiagnostic ext h issue)) =
      \<lparr>Position_Line = translate (Line (Pos issue)),
       Position_Character = translate (Column (Pos issue))\<rparr>"
    and e: "Range_End (DiagnosticRange (issueDiagnostic ext h issue)) =
      \<lparr>Position_Line = translate (Line (Pos issue)),
       Position_Character = translate (Column (Pos issue))\<rparr>"
    by (simp_all add: issueDiagnostic_def)
  have z: "x = 1 \<or> x = 0 \<longrightarrow> translate x = 0" for x
    using translate_one_zero by blast
  show ?thesis
    unfolding s e
    using translate_in_range [of "Line (Pos issue)"] translate_in_range [of "Column (Pos issue)"]
      z [of "Line (Pos issue)"] z [of "Column (Pos issue)"]
    by (simp add: uint_translate)
qed

theorem issueDiagnostic_point_range_witness:
  "- (2 ^ 63) < sint (10 :: 64 word) \<and> sint (10 :: 64 word) \<le> 2 ^ 32 \<and>
   uint (Position_Line (Range_Start (DiagnosticRange
      (issueDiagnostic sample_run sample_handler (issue_at ''pkg/a.go'' 10 3))))) = 9 \<and>
   uint (Position_Character (Range_Start (DiagnosticRange
      (issueDiagnostic sample_run sample_handler (issue_at ''pkg/a.go'' 10 3))))) = 2 \<and>
   Position_Line (Range_Start (DiagnosticRange
      (issueDiagnostic sample_run sample_handler (issue_at ''pkg/a.go'' 1 1)))) = 0 \<and>
   Position_Character (Range_Start (DiagnosticRange
      (issueDiagnostic sample_run sample_handler (issue_at ''pkg/a.go'' 0 0)))) = 0"
proof -
  note A = issueDiagnostic_point_range [of sample_run sample_handler "issue_at ''pkg/a.go'' 10 3"]
  note B = issueDiagnostic_point_range [of sample_run sample_handler "issue_at ''pkg/a.go'' 1 1"]
  note C = issueDiagnostic_point_range [of sample_run sample_handler "issue_at ''pkg/a.go'' 0 0"]
  note T = A [THEN conjunct2, THEN conjunct2, THEN conjunct2, THEN conjunct1] A [THEN conjunct2, THEN conjunct2, THEN conjunct2, THEN conjunct2, THEN conjunct1]
  note T1 = B [THEN conjunct2, THEN conjunct2, THEN conjunct2, THEN conjunct2, THEN conjunct2, THEN conjunct1]
  note T0 = C [THEN conjunct2, THEN conjunct2, THEN conjunct2, THEN conjunct2, THEN conjunct2, THEN conjunct2]
  have f: "Line (Pos (issue_at ''pkg/a.go'' 10 3)) = 10" "Column (Pos (issue_at ''pkg/a.go'' 10 3)) = 3"
    "Line (Pos (issue_at ''pkg/a.go'' 1 1)) = 1" "Column (Pos (issue_at ''pkg/a.go'' 0 0)) = 0"
    by (simp_all add: issue_at_def)
  have b: "- (2 ^ 63) < sint (10 :: 64 word)" "sint (10 :: 64 word) \<le> 2 ^ 32"
    "- (2 ^ 63) < sint (3 :: 64 word)" "sint (3 :: 64 word) \<le> 2 ^ 32" by simp_all
  from T b f have l: "uint (Position_Line (Range_Start (DiagnosticRange
      (issueDiagnostic sample_run sample_handler (issue_at ''pkg/a.go'' 10 3))))) = 9" by simp
  from T b f have c: "uint (Position_Character (Range_Start (DiagnosticRange
      (issueDiagnostic sample_run sample_handler (issue_at ''pkg/a.go'' 10 3))))) = 2" by simp
  from T1 f have l1: "Position_Line (Range_Start (DiagnosticRange
      (issueDiagnostic sample_run sample_handler (issue_at ''pkg/a.go'' 1 1)))) = 0" by simp
  from T0 f have c0: "Position_Character (Range_Start (DiagnosticRange
      (issueDiagnostic sample_run sample_handler (issue_at ''pkg/a.go'' 0 0)))) = 0" by simp
  from b l c l1 c0 show ?thesis by blast
qed

section \<open>The command builder\<close>

text \<open>
  Claim C2 at three inputs. The workspace root \<open>/proj\<close> is a string prefix of the
  document path \<open>/project/a.go\<close>, a file outside the workspace: the root branch is taken,
  the working directory is the root and the relative file name \<open>ct/a.go\<close> has lost the
  byte \<open>e\<close>, which is no separator, where the other branch gives the directory
  \<open>/project/\<close> and the file name \<open>a.go\<close>. On the root path itself the slice of the path
  is out of range and \<open>lint\<close> panics. With the root \<open>/proj/\<close>, the relative file name of
  \<open>/proj/pkg/a.go\<close> is \<open>kg/a.go\<close>. In none of them is the relative file name the
  document path with the root prefix and one separator stripped.
\<close>

theorem lint_command_prefix_not_checked:
  "strings_HasPrefix ''/project/a.go'' ''/proj'' \<and>
   lint_command sample_run sample_handler ''file:///project/a.go'' =
     Inr (\<lparr>Path = ''/usr/bin/golangci-lint'',
           Args = [''golangci-lint'', ''run'', ''--out-format'', ''json'', ''/project/''],
           Dir = ''/proj''\<rparr>, ''ct/a.go'') \<and>
   \<not> stripped_root_separator ''/project/a.go'' ''/proj'' ''ct/a.go'' \<and>
   filepath_Split ''/project/a.go'' = (''/project/'', ''a.go'') \<and>
   strings_HasPrefix ''/proj'' ''/proj'' \<and>
   lint_command sample_run sample_handler ''file:///proj'' = Inl SliceBoundsOutOfRange \<and>
   strings_HasPrefix ''/proj/pkg/a.go'' ''/proj/'' \<and>
   lint_command sample_run (sample_handler\<lparr>rootDir := ''file:///proj/''\<rparr>) ''file:///proj/pkg/a.go'' =
     Inr (\<lparr>Path = ''/usr/bin/golangci-lint'',
           Args = [''golangci-lint'', ''run'', ''--out-format'', ''json'', ''/proj/pkg/''],
           Dir = ''/proj/''\<rparr>, ''kg/a.go'') \<and>
   \<not> stripped_root_separator ''/proj/pkg/a.go'' ''/proj/'' ''kg/a.go''"
  by code_simp

section \<open>SeverityFromString\<close>

text \<open>
  Claim C7. \<open>SeverityFromString\<close> maps every string to one of the four severities: to
  Error, Information or Hint exactly when the lower-cased string is \<open>error\<close>,
  \<open>information\<close> or \<open>hint\<close>, and to Warning in every other case, the empty string
  included. On a string of ASCII bytes the lower-casing maps \<open>A..Z\<close> to \<open>a..z\<close>.
\<close>

theorem SeverityFromString_total:
  "SeverityFromString ext s \<in> {ErrorDiagnosticSeverity, WarningDiagnosticSeverity,
      InformationDiagnosticSeverity, HintDiagnosticSeverity} \<and>
   (SeverityFromString ext s = ErrorDiagnosticSeverity \<longleftrightarrow>
      strings_ToLower (unicode_ToLower ext) s = ''error'') \<and>
   (SeverityFromString ext s = InformationDiagnosticSeverity \<longleftrightarrow>
      strings_ToLower (unicode_ToLower ext) s = ''information'') \<and>
   (SeverityFromString ext s = HintDiagnosticSeverity \<longleftrightarrow>
      strings_ToLower (unicode_ToLower ext) s = ''hint'') \<and>
   (SeverityFromString ext s = WarningDiagnosticSeverity \<longleftrightarrow>
      strings_ToLower (unicode_ToLower ext) s \<notin> {''error'', ''information'', ''hint''}) \<and>
   (isASCII s \<longrightarrow> strings_ToLower (unicode_ToLower ext) s = map lowerASCII s) \<and>
   SeverityFromString ext [] = WarningDiagnosticSeverity"
proof -
  have total: "SeverityFromString ext s \<in> {ErrorDiagnosticSeverity, WarningDiagnosticSeverity,
      InformationDiagnosticSeverity, HintDiagnosticSeverity}"
    by (cases "SeverityFromString ext s") simp_all
  have empty: "SeverityFromString ext [] = WarningDiagnosticSeverity"
    by (simp add: SeverityFromString_def strings_ToLower_def isASCII_def)
  show ?thesis
    using total empty strings_ToLower_ASCII [of s "unicode_ToLower ext"]
    by (simp add: SeverityFromString_def Let_def)
qed

theorem SeverityFromString_total_witness:
  "isASCII ''ErRoR'' \<and> map lowerASCII ''ErRoR'' = ''error'' \<and>
   SeverityFromString sample_run ''ErRoR'' = ErrorDiagnosticSeverity \<and>
   SeverityFromString sample_run ''WARNING'' = WarningDiagnosticSeverity \<and>
   SeverityFromString sample_run ''Information'' = InformationDiagnosticSeverity \<and>
   SeverityFromString sample_run ''hinT'' = HintDiagnosticSeverity \<and>
   SeverityFromString sample_run ''fatal'' = WarningDiagnosticSeverity"
proof -
  have a: "isASCII ''ErRoR''" "isASCII ''WARNING''" "isASCII ''Information''" "isASCII ''hinT''"
    "isASCII ''fatal''" by code_simp+
  have l: "map lowerASCII ''ErRoR'' = ''error''" "map lowerASCII ''WARNING'' = ''warning''"
    "map lowerASCII ''Information'' = ''information''" "map lowerASCII ''hinT'' = ''hint''"
    "map lowerASCII ''fatal'' = ''fatal''" by code_simp+
  show ?thesis
    using a l SeverityFromString_total [of sample_run "''ErRoR''"]
      SeverityFromString_total [of sample_run "''WARNING''"]
      SeverityFromString_total [of sample_run "''Information''"]
      SeverityFromString_total [of sample_run "''hinT''"]
      SeverityFromString_total [of sample_run "''fatal''"]
    by simp
qed

section \<open>Initialize\<close>

text \<open>
  Claim C8 at the options a JSON decoder delivers: the client supplies a command list, the
  assertion to \<open>[]string\<close> fails on the \<open>[]any\<close>, and the session's command is the
  baseline, not the supplied list.
\<close>

theorem Initialize_json_command_ignored:
  "Initialize (NewServer False) json_command_params =
     Inr (\<lparr>noLinterName = False,
           command = Some [''golangci-lint'', ''run'', ''--out-format'', ''json''],
           rootURI = ''file:///proj'', rootDir = ''file:///proj''\<rparr>,
          \<lparr>OpenClose = True, Change = IncrementalSync, Save_IncludeText = True,
           ServerInfo_Name = ''golangci-lint-langserver''\<rparr>)"
  by (simp add: Initialize_def NewServer_def json_command_params_def index_def elems_def baseline_def)

text \<open>
  Claim C9. \<open>Initialize\<close> panics on an empty list of workspace folders (index out of
  range) and on initialization options that are not a \<open>map[string]any\<close>, nil included
  (interface conversion); in every other case it returns.
\<close>

theorem Initialize_panics:
  "(WorkspaceFolders params = [] \<longrightarrow> Initialize h params = Inl IndexOutOfRange) \<and>
   (WorkspaceFolders params \<noteq> [] \<and> (\<forall>m. InitializationOptions params \<noteq> AnyMap m) \<longrightarrow>
      Initialize h params = Inl InterfaceConversion) \<and>
   ((\<exists>p. Initialize h params = Inl p) \<longleftrightarrow>
      (WorkspaceFolders params = [] \<or> (\<forall>m. InitializationOptions params \<noteq> AnyMap m)))"
proof -
  have a: "WorkspaceFolders params = [] \<longrightarrow> Initialize h params = Inl IndexOutOfRange"
    by (simp add: Initialize_def index_def elems_def)
  have b: "WorkspaceFolders params \<noteq> [] \<and> (\<forall>m. InitializationOptions params \<noteq> AnyMap m) \<longrightarrow>
      Initialize h params = Inl InterfaceConversion"
    by (cases "InitializationOptions params")
       (auto simp: Initialize_def index_def elems_def)
  have c: "WorkspaceFolders params \<noteq> [] \<and> (\<exists>m. InitializationOptions params = AnyMap m) \<longrightarrow>
      (\<exists>r. Initialize h params = Inr r)"
  proof (intro impI, elim conjE exE)
    fix m assume "WorkspaceFolders params \<noteq> []" and m: "InitializationOptions params = AnyMap m"
    then obtain f fs where "WorkspaceFolders params = f # fs" by (cases "WorkspaceFolders params") auto
    from Initialize_returns [OF this m, of h] show "\<exists>r. Initialize h params = Inr r" by auto
  qed
  from a b c show ?thesis by (metis Inl_Inr_False)
qed

theorem Initialize_panics_witness:
  "Initialize (NewServer False) (sample_params [] (AnyMap Map.empty)) = Inl IndexOutOfRange \<and>
   Initialize (NewServer False) (sample_params [proj_folder] AnyNil) = Inl InterfaceConversion \<and>
   Initialize (NewServer False) (sample_params [proj_folder] (AnySlice [AnyString ''golangci-lint''])) =
     Inl InterfaceConversion"
proof -
  have e: "WorkspaceFolders (sample_params [] (AnyMap Map.empty)) = []"
    by (simp add: sample_params_def)
  have n: "WorkspaceFolders (sample_params [proj_folder] x) \<noteq> []" for x
    by (simp add: sample_params_def)
  have o1: "\<forall>m. InitializationOptions (sample_params [proj_folder] AnyNil) \<noteq> AnyMap m"
    by (simp add: sample_params_def)
  have o2: "\<forall>m. InitializationOptions (sample_params [proj_folder] (AnySlice [AnyString ''golangci-lint''])) \<noteq> AnyMap m"
    by (simp add: sample_params_def)
  show ?thesis
    using Initialize_panics [of "sample_params [] (AnyMap Map.empty)" "NewServer False"]
      Initialize_panics [of "sample_params [proj_folder] AnyNil" "NewServer False"]
      Initialize_panics [of "sample_params [proj_folder] (AnySlice [AnyString ''golangci-lint''])" "NewServer False"]
      e n o1 o2
    by simp
qed


end
